theory Spec2Isabelle
  imports Main
begin

section \<open>The MCP hub's server manager (src/server-manager.ts)\<close>

text \<open>
  A shallow embedding of the class \<open>McpServerManager\<close>. Every method becomes a function
  that takes the manager's state and returns the outcome together with the new state; a
  thrown \<open>Error\<close> is the left injection of a sum. What the class gets from outside (the
  JavaScript regular-expression engine, the URL parser, the process environment, the
  outcomes of \<open>connect\<close> and \<open>close\<close> of the protocol client, and what the upstream
  servers answer to a list request) is collected in a record \<open>host\<close> that every function
  takes as its first argument; the theorems hold for every host.
\<close>

subsection \<open>\<open>Map<string, Client>\<close>\<close>

text \<open>
  A JavaScript \<open>Map\<close> keeps its entries in insertion order, \<open>set\<close> on a present key
  replaces the value in place, and \<open>keys()\<close> lists the keys in that order. The model is an
  association list; \<open>get\<close>, \<open>has\<close> and \<open>delete\<close> act on the first entry of a key.
\<close>

definition Map_get :: "('k \<times> 'v) list \<Rightarrow> 'k \<Rightarrow> 'v option" where
  "Map_get m k = map_of m k"

definition Map_has :: "('k \<times> 'v) list \<Rightarrow> 'k \<Rightarrow> bool" where
  "Map_has m k = (Map_get m k \<noteq> None)"

fun Map_set :: "('k \<times> 'v) list \<Rightarrow> 'k \<Rightarrow> 'v \<Rightarrow> ('k \<times> 'v) list" where
  "Map_set [] k v = [(k, v)]"
| "Map_set ((k', v') # m) k v = (if k' = k then (k, v) # m else (k', v') # Map_set m k v)"

fun Map_delete :: "('k \<times> 'v) list \<Rightarrow> 'k \<Rightarrow> ('k \<times> 'v) list" where
  "Map_delete [] k = []"
| "Map_delete ((k', v') # m) k = (if k' = k then m else (k', v') # Map_delete m k)"

definition Map_keys :: "('k \<times> 'v) list \<Rightarrow> 'k list" where
  "Map_keys m = map fst m"

subsection \<open>Plain objects used as dictionaries\<close>

text \<open>
  A plain object (\<open>{}\<close>) that is written with \<open>obj[key] = value\<close> is modelled as the list
  of its own properties in the order in which JavaScript enumerates them. Two rules of the
  language set it apart from a \<open>Map\<close>:
  \<^item> the keys that are array indices (the decimal numerals of the integers from 0 to
    4294967294, without leading zeros) are enumerated first, in ascending order, and the
    other keys follow in the order of their creation;
  \<^item> an assignment to the key \<open>__proto__\<close> reaches the setter that every plain object
    inherits: it creates no property (it replaces the prototype of the object when the
    value is an object or an array, and does nothing for any other value).
\<close>

definition digit_value :: "char \<Rightarrow> int option" where
  "digit_value c =
     map_of [(CHR ''0'', 0), (CHR ''1'', 1), (CHR ''2'', 2), (CHR ''3'', 3), (CHR ''4'', 4),
             (CHR ''5'', 5), (CHR ''6'', 6), (CHR ''7'', 7), (CHR ''8'', 8), (CHR ''9'', 9)] c"

fun decimal_value :: "string \<Rightarrow> int \<Rightarrow> int option" where
  "decimal_value [] acc = Some acc"
| "decimal_value (c # cs) acc =
     (case digit_value c of None \<Rightarrow> None | Some d \<Rightarrow> decimal_value cs (10 * acc + d))"

definition array_index :: "string \<Rightarrow> int option" where
  "array_index k =
     (case k of
        [] \<Rightarrow> None
      | c # cs \<Rightarrow>
          if c = CHR ''0'' \<and> cs \<noteq> [] then None
          else (case decimal_value k 0 of
                  None \<Rightarrow> None
                | Some i \<Rightarrow> if i \<le> 4294967294 then Some i else None))"

text \<open>Whether a new key \<open>k\<close> is enumerated before the present key \<open>k'\<close>.\<close>

definition enumerated_before :: "string \<Rightarrow> string \<Rightarrow> bool" where
  "enumerated_before k k' =
     (case array_index k of
        None \<Rightarrow> False
      | Some i \<Rightarrow> (case array_index k' of None \<Rightarrow> True | Some j \<Rightarrow> i < j))"

fun Object_put :: "(string \<times> 'v) list \<Rightarrow> string \<Rightarrow> 'v \<Rightarrow> (string \<times> 'v) list" where
  "Object_put [] k v = [(k, v)]"
| "Object_put ((k', v') # obj) k v =
     (if k' = k then (k, v) # obj
      else if enumerated_before k k' then (k, v) # (k', v') # obj
      else (k', v') # Object_put obj k v)"

text \<open>The assignment \<open>obj[key] = value\<close>.\<close>

definition Object_set :: "(string \<times> 'v) list \<Rightarrow> string \<Rightarrow> 'v \<Rightarrow> (string \<times> 'v) list" where
  "Object_set obj k v = (if k = ''__proto__'' then obj else Object_put obj k v)"

text \<open>
  \<open>Object.assign(target, source)\<close>: every property of the source is assigned to the
  target, in the order of the source.
\<close>

definition Object_assign ::
  "(string \<times> 'v) list \<Rightarrow> (string \<times> 'v) list \<Rightarrow> (string \<times> 'v) list" where
  "Object_assign target source = foldl (\<lambda>acc (k, v). Object_set acc k v) target source"

subsection \<open>Tool descriptors and the reply of \<open>listTools\<close>\<close>

datatype json =
    JNull
  | JBool bool
  | JNumber int
  | JString string
  | JArray "json list"
  | JObject "(string \<times> json) list"

text \<open>
  A tool descriptor as the upstream reports it. A field that is absent (\<open>undefined\<close>) is
  \<open>None\<close>. The objects \<open>{name: tool.name, description: tool.description}\<close> that the
  listing and search methods build are descriptors without an \<open>inputSchema\<close>.
\<close>

record tool =
  name :: "string option"
  description :: "string option"
  inputSchema :: "json option"

text \<open>
  The property \<open>tools\<close> of the reply: absent, some value that is not an array, or an array
  of descriptors.
\<close>

datatype toolsField =
    ToolsMissing
  | ToolsNotArray json
  | ToolsArray "tool list"

record toolsResponse =
  tools :: toolsField

text \<open>The test \<open>!toolsResponse.tools || !Array.isArray(toolsResponse.tools)\<close>, negated.\<close>

fun tools_array :: "toolsResponse \<Rightarrow> tool list option" where
  "tools_array resp =
     (case tools resp of
        ToolsArray ts \<Rightarrow> Some ts
      | ToolsNotArray v \<Rightarrow> None
      | ToolsMissing \<Rightarrow> None)"

subsection \<open>Connection parameters, transports and clients\<close>

text \<open>
  The fields of \<open>ConnectMcpParams | McpServerConfig\<close> that \<open>connectToServer\<close> reads
  (the declaration is in types.ts; the field \<open>type\<close> is called \<open>transportKind\<close> here).
\<close>

record connectParams =
  transportKind :: "string option"
  command :: "string option"
  args :: "string list option"
  env :: "(string \<times> string) list option"
  url :: "string option"
  headers :: "(string \<times> string) list option"

datatype transport =
    StreamableHTTPClientTransport string "(string \<times> string) list option"
  | StdioClientTransport string "string list" "(string \<times> string) list"

text \<open>
  A \<open>Client\<close> object: the \<open>name\<close> and \<open>version\<close> it was created with, and the transport
  it is connected over.
\<close>

record client =
  clientName :: string
  clientVersion :: string
  clientTransport :: transport

subsection \<open>The host\<close>

text \<open>
  \<^item> \<open>RegExp_compile h pattern flags\<close> is the constructor \<open>new RegExp(pattern, flags)\<close>:
    \<open>Inl msg\<close> is a \<open>SyntaxError\<close> with that message, \<open>Inr p\<close> the compiled pattern.
  \<^item> \<open>RegExp_exec h p s i\<close> searches \<open>s\<close> from index \<open>i\<close>: \<open>None\<close> when the pattern
    matches nowhere at or after \<open>i\<close>, and otherwise \<open>Some e\<close>, where \<open>e\<close> is the index at
    which the leftmost such match ends.
  \<^item> \<open>URL_new h s\<close> is \<open>new URL(s)\<close>: \<open>Inl msg\<close> a \<open>TypeError\<close>, \<open>Inr u\<close> the URL.
  \<^item> \<open>process_env h\<close> is \<open>process.env\<close>.
  \<^item> \<open>client_connect h c\<close> is the outcome of \<open>client.connect(transport)\<close>: \<open>None\<close> when
    the handshake succeeds, \<open>Some msg\<close> when it rejects with that message.
  \<^item> \<open>upstream_listTools h c\<close> is what the list request of the client \<open>c\<close> meets: \<open>Inl msg\<close>
    when the request itself fails with that message, and \<open>Inr resp\<close> when the upstream
    server answers with \<open>resp\<close>, well-formed or not.
  \<^item> \<open>reply_error h resp\<close> is the message of the error with which the protocol client
    rejects the malformed answer \<open>resp\<close>.
  \<^item> \<open>client_close h c\<close> is the outcome of \<open>client.close()\<close>.
  Each method below calls a given client at most once for each of these, so one reply per
  client describes a run of the method.
\<close>

record 'r host =
  RegExp_compile :: "string \<Rightarrow> string \<Rightarrow> string + 'r"
  RegExp_exec :: "'r \<Rightarrow> string \<Rightarrow> nat \<Rightarrow> nat option"
  URL_new :: "string \<Rightarrow> string + string"
  process_env :: "(string \<times> string) list"
  client_connect :: "client \<Rightarrow> string option"
  upstream_listTools :: "client \<Rightarrow> string + toolsResponse"
  reply_error :: "toolsResponse \<Rightarrow> string"
  client_close :: "client \<Rightarrow> string option"

text \<open>
  Modelled from the spec: the method \<open>listTools\<close> of the protocol client, which belongs to
  the client library and is not in the source. It issues a live list request and returns
  the tool collection of the upstream; it raises when the call itself fails, and when the
  response of the upstream is malformed, that is, when the tool collection is missing or
  is not a sequence. So every \<open>Client\<close> object that the manager holds either rejects or
  resolves to a reply whose \<open>tools\<close> property is an array.
\<close>

definition client_listTools :: "'r host \<Rightarrow> client \<Rightarrow> string + toolsResponse" where
  "client_listTools h c =
     (case upstream_listTools h c of
        Inl msg \<Rightarrow> Inl msg
      | Inr resp \<Rightarrow>
          (case tools_array resp of
             None \<Rightarrow> Inl (reply_error h resp)
           | Some ts \<Rightarrow> Inr resp))"

subsection \<open>Regular expression objects\<close>

text \<open>
  A \<open>RegExp\<close> object carries its \<open>global\<close> flag and the mutable \<open>lastIndex\<close>.
  \<open>RegExp_test\<close> is \<open>regex.test(s)\<close> as ECMAScript defines it: a regular expression
  without the flag \<open>g\<close> searches from index 0 and leaves \<open>lastIndex\<close> alone; with the flag
  it searches from \<open>lastIndex\<close>, stores the end of the match there, and resets it to 0
  when the search fails or \<open>lastIndex\<close> is beyond the string.
\<close>

record 'r RegExp =
  program :: 'r
  global :: bool
  lastIndex :: nat

definition new_RegExp :: "'r host \<Rightarrow> string \<Rightarrow> string \<Rightarrow> string + 'r RegExp" where
  "new_RegExp h pattern flags =
     (case RegExp_compile h pattern flags of
        Inl msg \<Rightarrow> Inl msg
      | Inr p \<Rightarrow> Inr \<lparr>program = p, global = (CHR ''g'' \<in> set flags), lastIndex = 0\<rparr>)"

definition RegExp_test :: "'r host \<Rightarrow> 'r RegExp \<Rightarrow> string \<Rightarrow> bool \<times> 'r RegExp" where
  "RegExp_test h regex s =
     (let start = (if global regex then lastIndex regex else 0) in
      if start > length s
      then (False, if global regex then regex\<lparr>lastIndex := 0\<rparr> else regex)
      else (case RegExp_exec h (program regex) s start of
              None \<Rightarrow> (False, if global regex then regex\<lparr>lastIndex := 0\<rparr> else regex)
            | Some e \<Rightarrow> (True, if global regex then regex\<lparr>lastIndex := e\<rparr> else regex)))"

subsection \<open>Errors\<close>

datatype error =
    AlreadyConnected string
  | HttpRequiresUrl string
  | InvalidUrl string
  | StdioRequiresCommand string
  | ConnectFailed string string
  | NotConnected string
  | UpstreamFailure string
  | NoToolsFound string
  | ToolNotFound string string
  | RegExpSyntaxError string
  | InvalidRegexPattern string
  | DisconnectFailed string string

definition quoted :: "string \<Rightarrow> string" where
  "quoted s = CHR 0x27 # s @ [CHR 0x27]"

text \<open>The \<open>message\<close> of each error. An error that comes from outside keeps its message.\<close>

fun error_message :: "error \<Rightarrow> string" where
  "error_message (AlreadyConnected n) = ''Already connected to server '' @ quoted n @ ''.''"
| "error_message (HttpRequiresUrl n) = ''HTTP server '' @ quoted n @ '' requires a URL.''"
| "error_message (InvalidUrl msg) = msg"
| "error_message (StdioRequiresCommand n) = ''Stdio server '' @ quoted n @ '' requires a command.''"
| "error_message (ConnectFailed n msg) = ''Failed to connect to server '' @ quoted n @ '': '' @ msg"
| "error_message (NotConnected n) = ''Not connected to server '' @ quoted n @ ''.''"
| "error_message (UpstreamFailure msg) = msg"
| "error_message (NoToolsFound n) = ''No tools found on server '' @ quoted n"
| "error_message (ToolNotFound t n) = ''Tool '' @ quoted t @ '' not found on server '' @ quoted n"
| "error_message (RegExpSyntaxError msg) = msg"
| "error_message (InvalidRegexPattern msg) = ''Invalid regex pattern: '' @ msg"
| "error_message (DisconnectFailed n msg) =
     ''Failed to disconnect from server '' @ quoted n @ '': '' @ msg"

subsection \<open>The manager's state\<close>

text \<open>
  \<open>clients\<close> is the private field of the class. \<open>calls\<close> is the history of the calls made
  to the protocol clients, in order; the class has no such field, it is kept to state
  which clients a method contacted.
\<close>

datatype call = Connect client | ListTools client | Close client

record manager =
  clients :: "(string \<times> client) list"
  calls :: "call list"

definition record_call :: "call \<Rightarrow> manager \<Rightarrow> manager" where
  "record_call c st = st\<lparr>calls := calls st @ [c]\<rparr>"

subsection \<open>\<open>connectToServer\<close>\<close>

text \<open>A string or \<open>undefined\<close> in a condition: true when it is a non-empty string.\<close>

fun truthy :: "string option \<Rightarrow> bool" where
  "truthy None = False"
| "truthy (Some s) = (s \<noteq> [])"

text \<open>\<open>params.type || (params.command ? "stdio" : "http")\<close>\<close>

definition transportType :: "connectParams \<Rightarrow> string" where
  "transportType params =
     (case transportKind params of
        Some t \<Rightarrow> if t \<noteq> [] then t else (if truthy (command params) then ''stdio'' else ''http'')
      | None \<Rightarrow> (if truthy (command params) then ''stdio'' else ''http''))"

text \<open>
  The two branches of \<open>connectToServer\<close> that validate the parameters and build the
  transport, up to \<open>new Client\<close>.
\<close>

definition make_transport :: "'r host \<Rightarrow> string \<Rightarrow> connectParams \<Rightarrow> error + transport" where
  "make_transport h serverName params =
     (if transportType params = ''http'' then
        (case url params of
           None \<Rightarrow> Inl (HttpRequiresUrl serverName)
         | Some u \<Rightarrow>
             if u = [] then Inl (HttpRequiresUrl serverName)
             else (case URL_new h u of
                     Inl msg \<Rightarrow> Inl (InvalidUrl msg)
                   | Inr parsed \<Rightarrow> Inr (StreamableHTTPClientTransport parsed (headers params))))
      else
        (case command params of
           None \<Rightarrow> Inl (StdioRequiresCommand serverName)
         | Some cmd \<Rightarrow>
             if cmd = [] then Inl (StdioRequiresCommand serverName)
             else Inr (StdioClientTransport cmd
                        (case args params of None \<Rightarrow> [] | Some as \<Rightarrow> as)
                        (case env params of
                           None \<Rightarrow> process_env h
                         | Some e \<Rightarrow> Object_assign (process_env h) e))))"

definition connectToServer ::
  "'r host \<Rightarrow> string \<Rightarrow> connectParams \<Rightarrow> manager \<Rightarrow> (error + unit) \<times> manager" where
  "connectToServer h serverName params st =
     (if Map_has (clients st) serverName then (Inl (AlreadyConnected serverName), st)
      else
        (case make_transport h serverName params of
           Inl e \<Rightarrow> (Inl e, st)
         | Inr tr \<Rightarrow>
             (let c = \<lparr>clientName = ''mcp-client-'' @ serverName,
                       clientVersion = ''1.0.0'',
                       clientTransport = tr\<rparr>;
                  st1 = record_call (Connect c) st
              in case client_connect h c of
                   None \<Rightarrow> (Inr (), st1\<lparr>clients := Map_set (clients st1) serverName c\<rparr>)
                 | Some msg \<Rightarrow> (Inl (ConnectFailed serverName msg), st1))))"

subsection \<open>Lookups and listings\<close>

definition getClient :: "manager \<Rightarrow> string \<Rightarrow> error + client" where
  "getClient st serverName =
     (case Map_get (clients st) serverName of
        None \<Rightarrow> Inl (NotConnected serverName)
      | Some c \<Rightarrow> Inr c)"

definition getConnectedServers :: "manager \<Rightarrow> string list" where
  "getConnectedServers st = Map_keys (clients st)"

definition listServers :: "manager \<Rightarrow> string list" where
  "listServers st = getConnectedServers st"

definition listTools ::
  "'r host \<Rightarrow> string \<Rightarrow> manager \<Rightarrow> (error + toolsResponse) \<times> manager" where
  "listTools h serverName st =
     (case getClient st serverName of
        Inl e \<Rightarrow> (Inl e, st)
      | Inr c \<Rightarrow>
          (case client_listTools h c of
             Inl msg \<Rightarrow> (Inl (UpstreamFailure msg), record_call (ListTools c) st)
           | Inr resp \<Rightarrow> (Inr resp, record_call (ListTools c) st)))"

definition getTool ::
  "'r host \<Rightarrow> string \<Rightarrow> string \<Rightarrow> manager \<Rightarrow> (error + tool) \<times> manager" where
  "getTool h serverName toolName st =
     (case getClient st serverName of
        Inl e \<Rightarrow> (Inl e, st)
      | Inr c \<Rightarrow>
          (case client_listTools h c of
             Inl msg \<Rightarrow> (Inl (UpstreamFailure msg), record_call (ListTools c) st)
           | Inr toolsResponse \<Rightarrow>
               (case tools_array toolsResponse of
                  None \<Rightarrow> (Inl (NoToolsFound serverName), record_call (ListTools c) st)
                | Some ts \<Rightarrow>
                    (case find (\<lambda>t. name t = Some toolName) ts of
                       None \<Rightarrow> (Inl (ToolNotFound toolName serverName),
                                record_call (ListTools c) st)
                     | Some t \<Rightarrow> (Inr t, record_call (ListTools c) st)))))"

text \<open>The object \<open>{name: tool.name, description: tool.description}\<close>.\<close>

definition name_and_description :: "tool \<Rightarrow> tool" where
  "name_and_description t = \<lparr>name = name t, description = description t, inputSchema = None\<rparr>"

definition listToolsInServer ::
  "'r host \<Rightarrow> string \<Rightarrow> manager \<Rightarrow> (error + tool list) \<times> manager" where
  "listToolsInServer h serverName st =
     (case getClient st serverName of
        Inl e \<Rightarrow> (Inl e, st)
      | Inr c \<Rightarrow>
          (case client_listTools h c of
             Inl msg \<Rightarrow> (Inl (UpstreamFailure msg), record_call (ListTools c) st)
           | Inr toolsResponse \<Rightarrow>
               (case tools_array toolsResponse of
                  None \<Rightarrow> (Inr [], record_call (ListTools c) st)
                | Some ts \<Rightarrow> (Inr (map name_and_description ts), record_call (ListTools c) st))))"

subsection \<open>Searching\<close>

datatype searchIn = SearchName | SearchDescription | SearchBoth

text \<open>
  \<open>selected && field && regex.test(field)\<close>, as a truth value together with the regular
  expression object after the test. The test runs only when the field is selected and is a
  non-empty string.
\<close>

definition field_test ::
  "'r host \<Rightarrow> bool \<Rightarrow> string option \<Rightarrow> 'r RegExp \<Rightarrow> bool \<times> 'r RegExp" where
  "field_test h selected field regex =
     (if selected \<and> truthy field
      then (case field of None \<Rightarrow> (False, regex) | Some s \<Rightarrow> RegExp_test h regex s)
      else (False, regex))"

text \<open>
  \<open>toolsResponse.tools.filter(callback)\<close> with the callback that \<open>findToolsInServer\<close>
  and \<open>findTools\<close> both have. Both tests are evaluated for every tool, the name first, and
  the regular expression object is shared by all of them, so the function returns the
  object as the last test left it.
\<close>

fun filter_tools ::
  "'r host \<Rightarrow> searchIn \<Rightarrow> tool list \<Rightarrow> 'r RegExp \<Rightarrow> tool list \<times> 'r RegExp" where
  "filter_tools h si [] regex = ([], regex)"
| "filter_tools h si (t # ts) regex =
     (case field_test h (si \<noteq> SearchDescription) (name t) regex of
        (nameMatch, regex1) \<Rightarrow>
          (case field_test h (si \<noteq> SearchName) (description t) regex1 of
             (descriptionMatch, regex2) \<Rightarrow>
               (case filter_tools h si ts regex2 of
                  (matched, regex3) \<Rightarrow>
                    (if nameMatch \<or> descriptionMatch then (t # matched, regex3)
                     else (matched, regex3)))))"

definition findToolsInServer ::
  "'r host \<Rightarrow> string \<Rightarrow> string \<Rightarrow> searchIn \<Rightarrow> bool \<Rightarrow> manager
     \<Rightarrow> (error + tool list) \<times> manager" where
  "findToolsInServer h serverName pattern si caseSensitive st =
     (case getClient st serverName of
        Inl e \<Rightarrow> (Inl e, st)
      | Inr c \<Rightarrow>
          (case client_listTools h c of
             Inl msg \<Rightarrow> (Inl (UpstreamFailure msg), record_call (ListTools c) st)
           | Inr toolsResponse \<Rightarrow>
               (case tools_array toolsResponse of
                  None \<Rightarrow> (Inr [], record_call (ListTools c) st)
                | Some ts \<Rightarrow>
                    (case new_RegExp h pattern (if caseSensitive then ''g'' else ''gi'') of
                       Inl msg \<Rightarrow> (Inl (RegExpSyntaxError msg), record_call (ListTools c) st)
                     | Inr regex \<Rightarrow>
                         (Inr (map name_and_description (fst (filter_tools h si ts regex))),
                          record_call (ListTools c) st)))))"

text \<open>
  An element of a result list of \<open>findTools\<close>: a projected descriptor, or the object
  \<open>{error: message}\<close>.
\<close>

datatype resultEntry = ToolEntry tool | ErrorEntry string

record findOptions =
  searchIn :: "searchIn option"
  caseSensitive :: "bool option"

text \<open>
  The loop of \<open>findTools\<close> over the names. \<open>results\<close> is a plain object used as a
  dictionary: it is written with \<open>results[serverName] = ...\<close>, which is \<open>Object_set\<close>, and
  what the method returns is the list of its own properties. The regular expression object
  is the same one in every round, so it is passed on as the filter of the round before
  left it.
\<close>

fun findTools_loop ::
  "'r host \<Rightarrow> 'r RegExp \<Rightarrow> searchIn \<Rightarrow> string list \<Rightarrow> (string \<times> resultEntry list) list
     \<Rightarrow> manager \<Rightarrow> (string \<times> resultEntry list) list \<times> manager" where
  "findTools_loop h regex si [] results st = (results, st)"
| "findTools_loop h regex si (serverName # servers) results st =
     (case listTools h serverName st of
        (Inl e, st') \<Rightarrow>
          findTools_loop h regex si servers
            (Object_set results serverName
               [ErrorEntry (''Failed to search tools: '' @ error_message e)]) st'
      | (Inr toolsResponse, st') \<Rightarrow>
          (case tools_array toolsResponse of
             None \<Rightarrow> findTools_loop h regex si servers results st'
           | Some ts \<Rightarrow>
               (case filter_tools h si ts regex of
                  (matched, regex') \<Rightarrow>
                    (let matchedTools = map name_and_description matched
                     in if length matchedTools > 0
                        then findTools_loop h regex' si servers
                               (Object_set results serverName (map ToolEntry matchedTools)) st'
                        else findTools_loop h regex' si servers results st'))))"

text \<open>The defaults of \<open>const { searchIn = "both", caseSensitive = false } = options\<close>.\<close>

definition option_searchIn :: "findOptions \<Rightarrow> searchIn" where
  "option_searchIn options = (case searchIn options of None \<Rightarrow> SearchBoth | Some s \<Rightarrow> s)"

definition option_caseSensitive :: "findOptions \<Rightarrow> bool" where
  "option_caseSensitive options = (case caseSensitive options of None \<Rightarrow> False | Some b \<Rightarrow> b)"

definition findTools ::
  "'r host \<Rightarrow> string \<Rightarrow> findOptions \<Rightarrow> manager
     \<Rightarrow> (error + (string \<times> resultEntry list) list) \<times> manager" where
  "findTools h pattern options st =
     (let servers = getConnectedServers st
      in if length servers = 0 then (Inr [], st)
         else (case new_RegExp h pattern (if option_caseSensitive options then [] else ''i'') of
                 Inl msg \<Rightarrow> (Inl (InvalidRegexPattern msg), st)
               | Inr regex \<Rightarrow>
                   (case findTools_loop h regex (option_searchIn options) servers [] st of
                      (results, st') \<Rightarrow> (Inr results, st'))))"

subsection \<open>What a search is expected to report\<close>

text \<open>
  The match of a tool read without the regular expression object's state: a selected
  field matches when it is a non-empty string in which the pattern matches somewhere.
\<close>

definition field_matches :: "'r host \<Rightarrow> 'r \<Rightarrow> string option \<Rightarrow> bool" where
  "field_matches h p field =
     (case field of None \<Rightarrow> False | Some s \<Rightarrow> s \<noteq> [] \<and> RegExp_exec h p s 0 \<noteq> None)"

definition tool_matches :: "'r host \<Rightarrow> 'r \<Rightarrow> searchIn \<Rightarrow> tool \<Rightarrow> bool" where
  "tool_matches h p si t =
     ((si \<noteq> SearchDescription \<and> field_matches h p (name t)) \<or>
      (si \<noteq> SearchName \<and> field_matches h p (description t)))"

text \<open>
  The entry that a search over all servers is expected to hold for one server, from the
  reply of that server alone: the error marker when the listing fails, nothing when there
  is no tool array or no tool matches, and the projected matches otherwise.
\<close>

definition expected_entry ::
  "'r host \<Rightarrow> 'r \<Rightarrow> searchIn \<Rightarrow> client \<Rightarrow> resultEntry list option" where
  "expected_entry h p si c =
     (case client_listTools h c of
        Inl msg \<Rightarrow> Some [ErrorEntry (''Failed to search tools: '' @ msg)]
      | Inr resp \<Rightarrow>
          (case tools_array resp of
             None \<Rightarrow> None
           | Some ts \<Rightarrow>
               (if filter (tool_matches h p si) ts = [] then None
                else Some (map (ToolEntry \<circ> name_and_description)
                            (filter (tool_matches h p si) ts)))))"

text \<open>
  The \<open>inputSchema\<close> property of an element of a result list; an object \<open>{error: message}\<close>
  has none.
\<close>

fun entry_inputSchema :: "resultEntry \<Rightarrow> json option" where
  "entry_inputSchema (ToolEntry t) = inputSchema t"
| "entry_inputSchema (ErrorEntry msg) = None"

subsection \<open>Disconnecting\<close>

definition disconnectServer :: "'r host \<Rightarrow> string \<Rightarrow> manager \<Rightarrow> (error + unit) \<times> manager" where
  "disconnectServer h serverName st =
     (case Map_get (clients st) serverName of
        None \<Rightarrow> (Inl (NotConnected serverName), st)
      | Some c \<Rightarrow>
          (let st1 = record_call (Close c) st
           in case client_close h c of
                None \<Rightarrow> (Inr (), st1\<lparr>clients := Map_delete (clients st1) serverName\<rparr>)
              | Some msg \<Rightarrow> (Inl (DisconnectFailed serverName msg), st1)))"

text \<open>The loop of \<open>disconnectAll\<close>: an error of \<open>disconnectServer\<close> leaves the loop.\<close>

fun disconnect_each :: "'r host \<Rightarrow> string list \<Rightarrow> manager \<Rightarrow> (error + unit) \<times> manager" where
  "disconnect_each h [] st = (Inr (), st)"
| "disconnect_each h (serverName # serverNames) st =
     (case disconnectServer h serverName st of
        (Inl e, st') \<Rightarrow> (Inl e, st')
      | (Inr u, st') \<Rightarrow> disconnect_each h serverNames st')"

definition disconnectAll :: "'r host \<Rightarrow> manager \<Rightarrow> (error + unit) \<times> manager" where
  "disconnectAll h st = disconnect_each h (getConnectedServers st) st"

subsection \<open>A host to run the model on\<close>

text \<open>
  A regular-expression engine for the literal fragment of the pattern language: a pattern
  of ASCII letters and digits denotes itself, and with the flag \<open>i\<close> letters are compared
  without regard to case. Every other pattern is rejected by this engine; among them is
  \<open>(\<close>, which JavaScript rejects as well (an unterminated group). On the patterns of the
  fragment the engine finds the leftmost occurrence, as JavaScript does.
\<close>

definition ascii_lower :: "char \<Rightarrow> char" where
  "ascii_lower c =
     (case map_of (zip ''ABCDEFGHIJKLMNOPQRSTUVWXYZ'' ''abcdefghijklmnopqrstuvwxyz'') c of
        Some l \<Rightarrow> l
      | None \<Rightarrow> c)"

definition literal_char :: "char \<Rightarrow> bool" where
  "literal_char c =
     (c \<in> set ''ABCDEFGHIJKLMNOPQRSTUVWXYZabcdefghijklmnopqrstuvwxyz0123456789'')"

datatype literal_program = Literal string bool

definition literal_compile :: "string \<Rightarrow> string \<Rightarrow> string + literal_program" where
  "literal_compile pattern flags =
     (if list_all literal_char pattern
      then Inr (Literal pattern (CHR ''i'' \<in> set flags))
      else Inl ''Invalid regular expression'')"

fun literal_search :: "string \<Rightarrow> string \<Rightarrow> nat \<Rightarrow> nat option" where
  "literal_search p [] i = (if p = [] then Some i else None)"
| "literal_search p (c # cs) i =
     (if take (length p) (c # cs) = p then Some (i + length p)
      else literal_search p cs (Suc i))"

fun literal_exec :: "literal_program \<Rightarrow> string \<Rightarrow> nat \<Rightarrow> nat option" where
  "literal_exec (Literal p ignoreCase) s i =
     (if ignoreCase
      then literal_search (map ascii_lower p) (map ascii_lower (drop i s)) i
      else literal_search p (drop i s) i)"

text \<open>
  The upstream servers of the example, told apart by the name of their client: \<open>files\<close>
  reports two tools, the list request and \<open>close\<close> fail for \<open>broken\<close> and for
  \<open>__proto__\<close>, \<open>odd\<close> answers without a \<open>tools\<close> property, and every other server
  reports no tools.
\<close>

definition readFile_tool :: tool where
  "readFile_tool =
     \<lparr>name = Some ''ReadFile'',
      description = Some ''Reads a file'',
      inputSchema = Some (JObject [(''type'', JString ''object'')])\<rparr>"

definition fileInfo_tool :: tool where
  "fileInfo_tool =
     \<lparr>name = Some ''FileInfo'',
      description = Some ''Shows metadata'',
      inputSchema = Some (JObject [(''type'', JString ''object'')])\<rparr>"

definition example_listTools :: "client \<Rightarrow> string + toolsResponse" where
  "example_listTools c =
     (if clientName c = ''mcp-client-files''
        then Inr \<lparr>tools = ToolsArray [readFile_tool, fileInfo_tool]\<rparr>
      else if clientName c = ''mcp-client-broken'' then Inl ''Connection closed''
      else if clientName c = ''mcp-client-__proto__'' then Inl ''Connection closed''
      else if clientName c = ''mcp-client-odd'' then Inr \<lparr>tools = ToolsMissing\<rparr>
      else Inr \<lparr>tools = ToolsArray []\<rparr>)"

definition example_reply_error :: "toolsResponse \<Rightarrow> string" where
  "example_reply_error resp = ''Invalid tools list''"

definition example_close :: "client \<Rightarrow> string option" where
  "example_close c =
     (if clientName c = ''mcp-client-broken'' then Some ''Connection closed'' else None)"

definition example_connect :: "client \<Rightarrow> string option" where
  "example_connect c = None"

definition example_URL :: "string \<Rightarrow> string + string" where
  "example_URL s = (if take 7 s = ''http://'' then Inr s else Inl ''Invalid URL'')"

definition example_host :: "literal_program host" where
  "example_host =
     \<lparr>RegExp_compile = literal_compile,
      RegExp_exec = literal_exec,
      URL_new = example_URL,
      process_env = [(''PATH'', ''/usr/bin'')],
      client_connect = example_connect,
      upstream_listTools = example_listTools,
      reply_error = example_reply_error,
      client_close = example_close\<rparr>"

definition stdio_client :: "string \<Rightarrow> client" where
  "stdio_client serverName =
     \<lparr>clientName = ''mcp-client-'' @ serverName,
      clientVersion = ''1.0.0'',
      clientTransport = StdioClientTransport ''node'' [] [(''PATH'', ''/usr/bin'')]\<rparr>"

definition stdio_params :: connectParams where
  "stdio_params =
     \<lparr>transportKind = None, command = Some ''node'', args = None, env = None,
      url = None, headers = None\<rparr>"

definition no_params :: connectParams where
  "no_params =
     \<lparr>transportKind = None, command = None, args = None, env = None,
      url = None, headers = None\<rparr>"

definition no_servers :: manager where
  "no_servers = \<lparr>clients = [], calls = []\<rparr>"

definition files_connected :: manager where
  "files_connected =
     \<lparr>clients = [(''files'', stdio_client ''files'')],
      calls = [Connect (stdio_client ''files'')]\<rparr>"

definition three_servers :: manager where
  "three_servers =
     \<lparr>clients = [(''files'', stdio_client ''files''),
                 (''broken'', stdio_client ''broken''),
                 (''odd'', stdio_client ''odd'')],
      calls = []\<rparr>"

definition default_options :: findOptions where
  "default_options = \<lparr>searchIn = None, caseSensitive = None\<rparr>"

text \<open>States of the example after a call of \<open>disconnectServer\<close> or \<open>disconnectAll\<close>.\<close>

definition broken_closed :: manager where
  "broken_closed = three_servers\<lparr>calls := [Close (stdio_client ''broken'')]\<rparr>"

definition files_closed :: manager where
  "files_closed =
     \<lparr>clients = [(''broken'', stdio_client ''broken''), (''odd'', stdio_client ''odd'')],
      calls = [Close (stdio_client ''files'')]\<rparr>"

definition stopped_at_broken :: manager where
  "stopped_at_broken =
     \<lparr>clients = [(''broken'', stdio_client ''broken''), (''odd'', stdio_client ''odd'')],
      calls = [Close (stdio_client ''files''), Close (stdio_client ''broken'')]\<rparr>"

text \<open>The result and the state of the example after \<open>findTools\<close> with the pattern \<open>file\<close>.\<close>

definition file_search_results :: "(string \<times> resultEntry list) list" where
  "file_search_results =
     [(''files'', [ToolEntry (name_and_description readFile_tool),
                   ToolEntry (name_and_description fileInfo_tool)]),
      (''broken'', [ErrorEntry ''Failed to search tools: Connection closed'']),
      (''odd'', [ErrorEntry ''Failed to search tools: Invalid tools list''])]"

definition all_listed :: manager where
  "all_listed =
     three_servers\<lparr>calls := [ListTools (stdio_client ''files''),
                             ListTools (stdio_client ''broken''),
                             ListTools (stdio_client ''odd'')]\<rparr>"

text \<open>
  A manager with a server connected under the name \<open>__proto__\<close>, and the result and the
  state after \<open>findTools\<close> with the pattern \<open>file\<close>.
\<close>

definition proto_servers :: manager where
  "proto_servers =
     \<lparr>clients = [(''files'', stdio_client ''files''),
                 (''__proto__'', stdio_client ''__proto__'')],
      calls = []\<rparr>"

definition proto_search_results :: "(string \<times> resultEntry list) list" where
  "proto_search_results =
     [(''files'', [ToolEntry (name_and_description readFile_tool),
                   ToolEntry (name_and_description fileInfo_tool)])]"

definition proto_listed :: manager where
  "proto_listed =
     proto_servers\<lparr>calls := [ListTools (stdio_client ''files''),
                             ListTools (stdio_client ''__proto__'')]\<rparr>"

text \<open>A manager whose only server reports zero tools.\<close>

definition idle_server :: manager where
  "idle_server = \<lparr>clients = [(''idle'', stdio_client ''idle'')], calls = []\<rparr>"


section \<open>Properties\<close>

subsection \<open>The association-list model of \<open>Map\<close>\<close>

lemma Map_set_fresh: "k \<notin> set (map fst m) \<Longrightarrow> Map_set m k v = m @ [(k, v)]"
  by (induction m) auto

lemma Map_has_keys: "Map_has m k \<longleftrightarrow> k \<in> set (Map_keys m)"
  by (simp add: Map_has_def Map_get_def Map_keys_def map_of_eq_None_iff)

lemma Map_keys_set:
  "Map_keys (Map_set m k v) = (if k \<in> set (Map_keys m) then Map_keys m else Map_keys m @ [k])"
  by (induction m) (force simp: Map_keys_def)+

lemma Map_keys_delete: "Map_keys (Map_delete m k) = remove1 k (Map_keys m)"
  by (induction m) (auto simp: Map_keys_def)

lemma Map_get_delete_other: "n \<noteq> k \<Longrightarrow> Map_get (Map_delete m k) n = Map_get m n"
  by (induction m) (auto simp: Map_get_def)

lemma Map_get_delete_same:
  "distinct (Map_keys m) \<Longrightarrow> Map_get (Map_delete m k) k = None"
proof (induction m)
  case Nil
  then show ?case by (simp add: Map_get_def)
next
  case (Cons p m)
  obtain k' v' where p: "p = (k', v')" by (cases p)
  show ?case
  proof (cases "k' = k")
    case True
    with Cons.prems p have "k \<notin> set (map fst m)" by (simp add: Map_keys_def)
    then have "map_of m k = None" by (simp add: map_of_eq_None_iff)
    with True p show ?thesis by (simp add: Map_get_def)
  next
    case False
    with Cons p show ?thesis by (simp add: Map_get_def Map_keys_def)
  qed
qed

text \<open>
  The keys of \<open>clients\<close> stay distinct: \<open>connectToServer\<close> and \<open>disconnectServer\<close>, the
  only methods that write the map, keep them so, and the map is empty at first.
\<close>

lemma connectToServer_distinct:
  assumes "distinct (Map_keys (clients st))"
  shows "distinct (Map_keys (clients (snd (connectToServer h serverName params st))))"
  using assms
  by (auto simp: connectToServer_def Let_def record_call_def Map_keys_set Map_has_keys
      split: sum.splits option.splits)

lemma disconnectServer_distinct:
  assumes "distinct (Map_keys (clients st))"
  shows "distinct (Map_keys (clients (snd (disconnectServer h serverName st))))"
  using assms
  by (auto simp: disconnectServer_def Let_def record_call_def Map_keys_delete
      split: option.splits)

lemmas example_defs =
  example_host_def example_connect_def example_close_def example_listTools_def example_URL_def
  stdio_client_def stdio_params_def no_params_def no_servers_def files_connected_def
  three_servers_def default_options_def readFile_tool_def fileInfo_tool_def
  example_reply_error_def client_listTools_def

subsection \<open>Connecting\<close>

lemma connectToServer_duplicate:
  "Map_has (clients st) serverName \<Longrightarrow>
   connectToServer h serverName params st = (Inl (AlreadyConnected serverName), st)"
  by (simp add: connectToServer_def)

lemma connectToServer_success:
  assumes "connectToServer h serverName params st = (Inr (), st')"
  shows "\<not> Map_has (clients st) serverName"
    and "\<exists>c. clients st' = clients st @ [(serverName, c)]"
  using assms
  by (auto simp: connectToServer_def Let_def record_call_def Map_set_fresh Map_has_keys
      Map_keys_def split: if_splits sum.splits option.splits)

text \<open>
  Claim C1. After a successful \<open>connectToServer\<close> of a name, the name stands exactly once
  in the list of connected server names, and connecting the same name again, with any
  parameters and any host, fails with the already-connected error and returns the state
  as it was: the map of clients, with the session in it, and the history of calls are
  unchanged.
\<close>

theorem connectToServer_once_then_already_connected:
  assumes "connectToServer h serverName params st = (Inr (), st')"
  shows "count_list (getConnectedServers st') serverName = 1 \<and>
         connectToServer h' serverName params' st' = (Inl (AlreadyConnected serverName), st')"
proof -
  from connectToServer_success[OF assms] obtain c
    where fresh: "\<not> Map_has (clients st) serverName"
      and st': "clients st' = clients st @ [(serverName, c)]" by blast
  from fresh have notin: "serverName \<notin> set (map fst (clients st))"
    by (simp add: Map_has_keys Map_keys_def)
  have cnt: "count_list (getConnectedServers st') serverName = 1"
    using notin by (simp add: getConnectedServers_def Map_keys_def st' count_list_0_iff)
  have "Map_has (clients st') serverName"
    by (simp add: Map_has_keys Map_keys_def st')
  then have "connectToServer h' serverName params' st' = (Inl (AlreadyConnected serverName), st')"
    by (rule connectToServer_duplicate)
  with cnt show ?thesis by simp
qed

theorem connectToServer_once_then_already_connected_witness:
  "connectToServer example_host ''files'' stdio_params no_servers = (Inr (), files_connected) \<and>
   count_list (getConnectedServers files_connected) ''files'' = 1 \<and>
   connectToServer example_host ''files'' no_params files_connected
     = (Inl (AlreadyConnected ''files''), files_connected)"
proof -
  have ok: "connectToServer example_host ''files'' stdio_params no_servers
              = (Inr (), files_connected)"
    by (simp add: connectToServer_def make_transport_def transportType_def Map_has_def
        Map_get_def record_call_def Let_def example_defs)
  from connectToServer_once_then_already_connected[OF ok, of example_host no_params] ok
  show ?thesis by simp
qed

text \<open>
  Claim C10. For a name that is already connected, \<open>connectToServer\<close> raises the
  already-connected error whatever the parameters are: the check of the name comes before
  the validation of the parameters and the construction of the transport, so parameters
  without a URL or without a command produce no validation error, and the state is
  unchanged.
\<close>

theorem connectToServer_duplicate_before_validation:
  assumes "Map_has (clients st) serverName"
  shows "connectToServer h serverName params st = (Inl (AlreadyConnected serverName), st) \<and>
         fst (connectToServer h serverName params st) \<noteq> Inl (HttpRequiresUrl serverName) \<and>
         fst (connectToServer h serverName params st) \<noteq> Inl (StdioRequiresCommand serverName)"
  using assms by (simp add: connectToServer_def)

text \<open>
  The witness: \<open>no_params\<close> has neither a URL nor a command, so the validation would
  reject it, as it does for a name that is not connected.
\<close>

theorem connectToServer_duplicate_before_validation_witness:
  "Map_has (clients files_connected) ''files'' \<and>
   make_transport example_host ''files'' no_params = Inl (HttpRequiresUrl ''files'') \<and>
   connectToServer example_host ''other'' no_params files_connected
     = (Inl (HttpRequiresUrl ''other''), files_connected) \<and>
   connectToServer example_host ''files'' no_params files_connected
     = (Inl (AlreadyConnected ''files''), files_connected)"
proof -
  have connected: "Map_has (clients files_connected) ''files''"
    by (simp add: Map_has_def Map_get_def files_connected_def)
  have invalid: "make_transport example_host ''files'' no_params = Inl (HttpRequiresUrl ''files'')"
    by (simp add: make_transport_def transportType_def no_params_def)
  have other: "connectToServer example_host ''other'' no_params files_connected
                 = (Inl (HttpRequiresUrl ''other''), files_connected)"
    by (simp add: connectToServer_def make_transport_def transportType_def Map_has_def
        Map_get_def no_params_def files_connected_def)
  from connectToServer_duplicate_before_validation[OF connected, of example_host no_params]
    connected invalid other
  show ?thesis by simp
qed

subsection \<open>Disconnecting\<close>

text \<open>
  Claim C9. For a connected name, \<open>disconnectServer\<close> calls \<open>close\<close> on the client. When
  \<open>close\<close> succeeds the entry is deleted: the name is no longer connected and every other
  name keeps its session. When \<open>close\<close> fails, the disconnect error is raised and the map
  of clients is unchanged.
\<close>

theorem disconnectServer_removes_after_close_only:
  assumes connected: "Map_get (clients st) serverName = Some c"
    and unique: "distinct (Map_keys (clients st))"
    and run: "disconnectServer h serverName st = (r, st')"
  shows "calls st' = calls st @ [Close c] \<and>
         (client_close h c = None \<longrightarrow>
            r = Inr () \<and> clients st' = Map_delete (clients st) serverName \<and>
            \<not> Map_has (clients st') serverName \<and>
            (\<forall>n. n \<noteq> serverName \<longrightarrow> Map_get (clients st') n = Map_get (clients st) n)) \<and>
         (\<forall>msg. client_close h c = Some msg \<longrightarrow>
            r = Inl (DisconnectFailed serverName msg) \<and> clients st' = clients st)"
proof (cases "client_close h c")
  case None
  with connected run have r: "r = Inr ()"
    and st': "st' = (record_call (Close c) st)\<lparr>clients := Map_delete (clients st) serverName\<rparr>"
    by (auto simp: disconnectServer_def Let_def record_call_def)
  show ?thesis using None r unique
    by (simp add: st' record_call_def Map_has_def Map_get_delete_same Map_get_delete_other)
next
  case (Some msg)
  with connected run show ?thesis
    by (auto simp: disconnectServer_def Let_def record_call_def)
qed

theorem disconnectServer_removes_after_close_only_witness:
  "Map_get (clients three_servers) ''broken'' = Some (stdio_client ''broken'') \<and>
   distinct (Map_keys (clients three_servers)) \<and>
   client_close example_host (stdio_client ''broken'') = Some ''Connection closed'' \<and>
   disconnectServer example_host ''broken'' three_servers
     = (Inl (DisconnectFailed ''broken'' ''Connection closed''), broken_closed) \<and>
   clients broken_closed = clients three_servers \<and>
   Map_get (clients three_servers) ''files'' = Some (stdio_client ''files'') \<and>
   client_close example_host (stdio_client ''files'') = None \<and>
   disconnectServer example_host ''files'' three_servers = (Inr (), files_closed) \<and>
   \<not> Map_has (clients files_closed) ''files''"
proof -
  have g1: "Map_get (clients three_servers) ''broken'' = Some (stdio_client ''broken'')"
    and g2: "Map_get (clients three_servers) ''files'' = Some (stdio_client ''files'')"
    and d: "distinct (Map_keys (clients three_servers))"
    by (simp_all add: Map_get_def Map_keys_def three_servers_def)
  have c1: "client_close example_host (stdio_client ''broken'') = Some ''Connection closed''"
    and c2: "client_close example_host (stdio_client ''files'') = None"
    by (simp_all add: example_defs)
  have r1: "disconnectServer example_host ''broken'' three_servers
              = (Inl (DisconnectFailed ''broken'' ''Connection closed''), broken_closed)"
    by (simp add: disconnectServer_def Map_get_def record_call_def Let_def broken_closed_def
        example_defs)
  have r2: "disconnectServer example_host ''files'' three_servers = (Inr (), files_closed)"
    by (simp add: disconnectServer_def Map_get_def record_call_def Let_def files_closed_def
        example_defs)
  from disconnectServer_removes_after_close_only[OF g1 d r1] c1
  have kept: "clients broken_closed = clients three_servers" by blast
  from disconnectServer_removes_after_close_only[OF g2 d r2] c2
  have gone: "\<not> Map_has (clients files_closed) ''files''" by blast
  from g1 g2 d c1 c2 r1 r2 kept gone show ?thesis by blast
qed

text \<open>
  The loop of \<open>disconnectAll\<close> on a map whose first entries close and whose next entry
  does not: the entries that closed are deleted one by one from the front, and the loop
  ends at the failure, whatever names follow.
\<close>

lemma disconnect_each_fail_fast:
  assumes "\<forall>(k, v) \<in> set pre. client_close h v = None"
    and "client_close h c = Some msg"
    and "clients st = pre @ (n, c) # post"
  shows "disconnect_each h (map fst pre @ n # rest) st =
         (Inl (DisconnectFailed n msg),
          st\<lparr>clients := (n, c) # post, calls := calls st @ map (Close \<circ> snd) pre @ [Close c]\<rparr>)"
  using assms
proof (induction pre arbitrary: st)
  case Nil
  then show ?case
    by (simp add: disconnectServer_def Map_get_def record_call_def)
next
  case (Cons p pre)
  obtain k v where p: "p = (k, v)" by (cases p)
  let ?st1 = "st\<lparr>clients := pre @ (n, c) # post, calls := calls st @ [Close v]\<rparr>"
  from Cons.prems p have step: "disconnectServer h k st = (Inr (), ?st1)"
    by (simp add: disconnectServer_def Map_get_def record_call_def)
  have "disconnect_each h (map fst pre @ n # rest) ?st1 =
         (Inl (DisconnectFailed n msg),
          ?st1\<lparr>clients := (n, c) # post,
                calls := calls ?st1 @ map (Close \<circ> snd) pre @ [Close c]\<rparr>)"
    using Cons.prems by (intro Cons.IH) auto
  then show ?case using step p by simp
qed

text \<open>
  Claim C8. \<open>disconnectAll\<close> takes the connected names once, at the start, and disconnects
  them in order. When the clients before \<open>n\<close> close and the client of \<open>n\<close> does not, the
  error of \<open>disconnectServer\<close> for \<open>n\<close> reaches the caller, \<open>close\<close> has been called on the
  clients up to and including the one of \<open>n\<close> and on no later one, and \<open>n\<close> and all later
  names are still connected.
\<close>

theorem disconnectAll_fail_fast:
  assumes "clients st = pre @ (n, c) # post"
    and "\<forall>(k, v) \<in> set pre. client_close h v = None"
    and "client_close h c = Some msg"
  shows "disconnectAll h st =
         (Inl (DisconnectFailed n msg),
          st\<lparr>clients := (n, c) # post, calls := calls st @ map (Close \<circ> snd) pre @ [Close c]\<rparr>)"
proof -
  have "getConnectedServers st = map fst pre @ n # map fst post"
    by (simp add: getConnectedServers_def Map_keys_def assms(1))
  then show ?thesis
    using disconnect_each_fail_fast[OF assms(2) assms(3) assms(1)]
    by (simp add: disconnectAll_def)
qed

theorem disconnectAll_fail_fast_witness:
  "clients three_servers
     = [(''files'', stdio_client ''files'')] @ (''broken'', stdio_client ''broken'')
         # [(''odd'', stdio_client ''odd'')] \<and>
   client_close example_host (stdio_client ''files'') = None \<and>
   client_close example_host (stdio_client ''broken'') = Some ''Connection closed'' \<and>
   disconnectAll example_host three_servers
     = (Inl (DisconnectFailed ''broken'' ''Connection closed''), stopped_at_broken)"
proof -
  have m: "clients three_servers
     = [(''files'', stdio_client ''files'')] @ (''broken'', stdio_client ''broken'')
         # [(''odd'', stdio_client ''odd'')]"
    by (simp add: three_servers_def)
  have ok: "\<forall>(k, v) \<in> set [(''files'', stdio_client ''files'')]. client_close example_host v = None"
    by (simp add: example_defs)
  have bad: "client_close example_host (stdio_client ''broken'') = Some ''Connection closed''"
    by (simp add: example_defs)
  have "disconnectAll example_host three_servers
          = (Inl (DisconnectFailed ''broken'' ''Connection closed''), stopped_at_broken)"
    using disconnectAll_fail_fast[OF m ok bad]
    by (simp add: stopped_at_broken_def three_servers_def)
  with m ok bad show ?thesis by simp
qed

subsection \<open>Searching with a regular expression that is not global\<close>

text \<open>
  Without the flag \<open>g\<close> a test does not change the regular expression object, and the
  filter keeps exactly the tools that match.
\<close>

lemma RegExp_test_not_global:
  "\<not> global regex \<Longrightarrow>
   RegExp_test h regex s = (RegExp_exec h (program regex) s 0 \<noteq> None, regex)"
  by (simp add: RegExp_test_def split: option.splits)

lemma field_test_not_global:
  "\<not> global regex \<Longrightarrow>
   field_test h selected field regex = (selected \<and> field_matches h (program regex) field, regex)"
  by (cases field) (simp_all add: field_test_def field_matches_def RegExp_test_not_global)

lemma filter_tools_not_global:
  "\<not> global regex \<Longrightarrow>
   filter_tools h si ts regex = (filter (tool_matches h (program regex) si) ts, regex)"
  by (induction ts) (simp_all add: field_test_not_global tool_matches_def)

lemma new_RegExp_not_global:
  "CHR ''g'' \<notin> set flags \<Longrightarrow> RegExp_compile h pattern flags = Inr p \<Longrightarrow>
   new_RegExp h pattern flags = Inr \<lparr>program = p, global = False, lastIndex = 0\<rparr>"
  by (simp add: new_RegExp_def)

lemma listTools_connected:
  "Map_get (clients st) n = Some c \<Longrightarrow>
   listTools h n st =
     (case client_listTools h c of Inl msg \<Rightarrow> Inl (UpstreamFailure msg) | Inr resp \<Rightarrow> Inr resp,
      record_call (ListTools c) st)"
  by (simp add: listTools_def getClient_def split: sum.splits)

lemma Map_get_Object_put:
  "Map_get (Object_put obj k v) n = (if n = k then Some v else Map_get obj n)"
  by (induction obj) (auto simp: Map_get_def)

lemma Map_get_Object_set:
  "Map_get (Object_set obj k v) n =
     (if k \<noteq> ''__proto__'' \<and> n = k then Some v else Map_get obj n)"
  by (simp add: Object_set_def Map_get_Object_put)

lemma set_Object_put: "set (Object_put obj k v) \<subseteq> insert (k, v) (set obj)"
  by (induction obj) (auto split: if_splits)

lemma set_Object_set: "set (Object_set obj k v) \<subseteq> insert (k, v) (set obj)"
  using set_Object_put[of obj k v] by (auto simp: Object_set_def)

lemma findTools_loop_clients:
  "clients (snd (findTools_loop h regex si names results st)) = clients st"
  by (induction h regex si names results st rule: findTools_loop.induct)
    (auto simp: listTools_def getClient_def record_call_def Let_def split: sum.splits option.splits prod.splits)

text \<open>
  The loop of \<open>findTools\<close>: after it, the entry of a name of the loop other than
  \<open>__proto__\<close> is the expected entry of its client when there is one, and every other
  name has the entry that the results held before.
\<close>

lemma findTools_loop_entries:
  assumes "\<not> global regex" and "set names \<subseteq> set (Map_keys (clients st))"
  shows "Map_get (fst (findTools_loop h regex si names results st)) n =
         (if n \<in> set names \<and> n \<noteq> ''__proto__''
          then (case Map_get (clients st) n of
                  None \<Rightarrow> Map_get results n
                | Some c \<Rightarrow> (case expected_entry h (program regex) si c of
                               None \<Rightarrow> Map_get results n | Some es \<Rightarrow> Some es))
          else Map_get results n)"
  using assms
proof (induction names arbitrary: results st)
  case Nil
  then show ?case by simp
next
  case (Cons a names)
  from Cons.prems(2) have "Map_has (clients st) a" by (simp add: Map_has_keys)
  then obtain c where c: "Map_get (clients st) a = Some c"
    by (auto simp: Map_has_def)
  let ?st1 = "record_call (ListTools c) st"
  have keys1: "set names \<subseteq> set (Map_keys (clients ?st1))"
    using Cons.prems(2) by (simp add: record_call_def)
  have cl1: "clients ?st1 = clients st" by (simp add: record_call_def)
  note IH = Cons.IH[OF Cons.prems(1) keys1, unfolded cl1]
  show ?case
  proof (cases "client_listTools h c")
    case (Inl msg)
    let ?new = "Object_set results a [ErrorEntry (''Failed to search tools: '' @ msg)]"
    have step: "findTools_loop h regex si (a # names) results st =
                findTools_loop h regex si names ?new ?st1"
      using c Inl by (simp add: listTools_connected)
    have exp: "expected_entry h (program regex) si c
                 = Some [ErrorEntry (''Failed to search tools: '' @ msg)]"
      using Inl by (simp add: expected_entry_def)
    show ?thesis
      unfolding step using c exp IH[of ?new]
      by (auto simp: Map_get_Object_set split: option.splits)
  next
    case (Inr resp)
    show ?thesis
    proof (cases "tools_array resp")
      case None
      then show ?thesis using c IH Inr
        by (simp add: listTools_connected expected_entry_def split: option.splits)
    next
      case (Some ts)
      let ?ms = "filter (tool_matches h (program regex) si) ts"
      let ?new = "Object_set results a (map ToolEntry (map name_and_description ?ms))"
      have step: "findTools_loop h regex si (a # names) results st =
                  findTools_loop h regex si names (if ?ms = [] then results else ?new) ?st1"
        using c Inr Some Cons.prems(1)
        by (simp add: listTools_connected filter_tools_not_global Let_def)
      have exp: "expected_entry h (program regex) si c =
                 (if ?ms = [] then None else Some (map ToolEntry (map name_and_description ?ms)))"
        using Inr Some by (simp add: expected_entry_def)
      show ?thesis
        unfolding step using c exp IH[of "if ?ms = [] then results else ?new"]
        by (auto simp: Map_get_Object_set split: option.splits)
    qed
  qed
qed

lemmas search_defs = findTools_def getConnectedServers_def Map_keys_def new_RegExp_def
  listTools_def getClient_def Map_get_def record_call_def tools_array.simps field_test_def
  RegExp_test_def literal_compile_def literal_char_def ascii_lower_def name_and_description_def
  option_searchIn_def option_caseSensitive_def Let_def Object_set_def enumerated_before_def
  array_index_def digit_value_def

lemma findTools_example:
  "findTools example_host ''file'' default_options three_servers
     = (Inr file_search_results, all_listed)"
  by (simp add: search_defs file_search_results_def all_listed_def example_defs)

text \<open>
  What \<open>findTools\<close> returns for a pattern that compiles: it does not raise, the map of
  clients is unchanged, and the result holds, under the name of each connected server other
  than \<open>__proto__\<close>, the entry expected from the reply of that server alone. The name
  \<open>__proto__\<close> never has an entry.
\<close>

lemma findTools_entries_by_server:
  assumes "RegExp_compile h pattern (if option_caseSensitive options then [] else ''i'') = Inr p"
  shows "\<exists>results st'.
           findTools h pattern options st = (Inr results, st') \<and>
           clients st' = clients st \<and>
           (\<forall>n. Map_get results n =
                  (if n = ''__proto__'' then None
                   else (case Map_get (clients st) n of
                           None \<Rightarrow> None
                         | Some c \<Rightarrow> expected_entry h p (option_searchIn options) c)))"
proof (cases "clients st = []")
  case True
  then show ?thesis
    by (simp add: findTools_def getConnectedServers_def Map_keys_def Map_get_def)
next
  case False
  let ?flags = "if option_caseSensitive options then [] else ''i''"
  let ?regex = "\<lparr>program = p, global = False, lastIndex = 0\<rparr>"
  let ?run = "findTools_loop h ?regex (option_searchIn options) (Map_keys (clients st)) [] st"
  have "CHR ''g'' \<notin> set ?flags" by simp
  then have regex: "new_RegExp h pattern ?flags = Inr ?regex"
    using assms by (rule new_RegExp_not_global)
  have run: "findTools h pattern options st = (Inr (fst ?run), snd ?run)"
    using False regex
    by (simp add: findTools_def getConnectedServers_def Map_keys_def split: prod.splits)
  have entries: "Map_get (fst ?run) n =
                   (if n = ''__proto__'' then None
                    else (case Map_get (clients st) n of
                            None \<Rightarrow> None
                          | Some c \<Rightarrow> expected_entry h p (option_searchIn options) c))" for n
  proof (cases "n \<in> set (Map_keys (clients st))")
    case True
    then show ?thesis
      using findTools_loop_entries[of ?regex "Map_keys (clients st)" st h
          "option_searchIn options" "[]" n]
      by (simp add: Map_get_def[of "[]"] split: option.splits)
  next
    case False
    then have "Map_get (clients st) n = None"
      using Map_has_keys[of "clients st" n] by (simp add: Map_has_def)
    with False show ?thesis
      using findTools_loop_entries[of ?regex "Map_keys (clients st)" st h
          "option_searchIn options" "[]" n]
      by (simp add: Map_get_def[of "[]"])
  qed
  show ?thesis
    using run entries findTools_loop_clients[of h ?regex "option_searchIn options"
        "Map_keys (clients st)" "[]" st]
    by blast
qed

text \<open>
  Claim C6 does not hold of \<open>findTools\<close> for a server that is connected under the name
  \<open>__proto__\<close>. The results are collected in a plain object, and the assignment
  \<open>results[serverName] = ...\<close> creates no property for that name. In the example the
  servers \<open>files\<close> and \<open>__proto__\<close> are connected and the listing of \<open>__proto__\<close> fails:
  the single-element error entry is expected under its name, and the result holds the
  entry of \<open>files\<close> only.
\<close>

theorem findTools_proto_server_has_no_entry:
  "Map_get (clients proto_servers) ''__proto__'' = Some (stdio_client ''__proto__'') \<and>
   client_listTools example_host (stdio_client ''__proto__'') = Inl ''Connection closed'' \<and>
   expected_entry example_host (Literal ''file'' True) SearchBoth (stdio_client ''__proto__'')
     = Some [ErrorEntry ''Failed to search tools: Connection closed''] \<and>
   findTools example_host ''file'' default_options proto_servers
     = (Inr proto_search_results, proto_listed) \<and>
   Map_keys proto_search_results = [''files''] \<and>
   Map_get proto_search_results ''__proto__'' = None"
proof -
  have a: "Map_get (clients proto_servers) ''__proto__'' = Some (stdio_client ''__proto__'')"
    by (simp add: Map_get_def proto_servers_def)
  have b: "client_listTools example_host (stdio_client ''__proto__'') = Inl ''Connection closed''"
    by (simp add: example_defs)
  have c: "expected_entry example_host (Literal ''file'' True) SearchBoth
             (stdio_client ''__proto__'')
           = Some [ErrorEntry ''Failed to search tools: Connection closed'']"
    by (simp add: expected_entry_def example_defs)
  have d: "findTools example_host ''file'' default_options proto_servers
             = (Inr proto_search_results, proto_listed)"
    by (simp add: search_defs proto_servers_def proto_search_results_def proto_listed_def
        example_defs)
  have e: "Map_keys proto_search_results = [''files'']"
    by (simp add: Map_keys_def proto_search_results_def)
  have f: "Map_get proto_search_results ''__proto__'' = None"
    by (simp add: Map_get_def proto_search_results_def)
  show ?thesis
    by (intro conjI) (rule a b c d e f)+
qed

subsection \<open>What the search results and \<open>getTool\<close> carry\<close>

lemma name_and_description_schema: "inputSchema (name_and_description t) = None"
  by (simp add: name_and_description_def)

lemma findTools_loop_no_schema:
  assumes "\<forall>(n, es) \<in> set results. \<forall>e \<in> set es. entry_inputSchema e = None"
  shows "\<forall>(n, es) \<in> set (fst (findTools_loop h regex si names results st)).
           \<forall>e \<in> set es. entry_inputSchema e = None"
  using assms
proof (induction names arbitrary: regex results st)
  case Nil
  then show ?case by simp
next
  case (Cons serverName servers)
  have grow: "\<forall>(n, es) \<in> set (Object_set results serverName new).
                \<forall>e \<in> set es. entry_inputSchema e = None"
    if "\<forall>e \<in> set new. entry_inputSchema e = None" for new
    using that Cons.prems set_Object_set[of results serverName new] by fastforce
  obtain r st1 where lt: "listTools h serverName st = (r, st1)"
    by (cases "listTools h serverName st")
  show ?case
  proof (cases r)
    case (Inl e)
    have err: "\<forall>e' \<in> set [ErrorEntry msg]. entry_inputSchema e' = None" for msg
      by simp
    show ?thesis using Inl lt Cons.IH[OF grow[OF err]] by simp
  next
    case (Inr resp)
    show ?thesis
    proof (cases "tools_array resp")
      case None
      then show ?thesis using lt Inr Cons.IH[OF Cons.prems] by simp
    next
      case (Some ts)
      obtain matched regex' where ft: "filter_tools h si ts regex = (matched, regex')"
        by (cases "filter_tools h si ts regex")
      have new: "\<forall>e \<in> set (map ToolEntry (map name_and_description matched)).
                   entry_inputSchema e = None"
        by (simp add: name_and_description_schema)
      show ?thesis
      proof (cases "matched = []")
        case True
        then show ?thesis
          using lt Inr Some ft Cons.IH[OF Cons.prems] by simp
      next
        case False
        then show ?thesis
          using lt Inr Some ft Cons.IH[OF grow[OF new]] by simp
      qed
    qed
  qed
qed

text \<open>
  Claim C7. No descriptor returned by \<open>findToolsInServer\<close> and no element of a result
  list of \<open>findTools\<close> has an \<open>inputSchema\<close>. \<open>getTool\<close>, when the reply of the server holds
  a tool whose name is exactly the requested one, returns the first such descriptor as the
  upstream reported it, with its \<open>inputSchema\<close>; names are compared as strings, so the
  comparison is case-sensitive.
\<close>

theorem search_results_drop_schema_getTool_keeps_it:
  "(\<forall>ts. fst (findToolsInServer h serverName pattern si cs st) = Inr ts \<longrightarrow>
         (\<forall>t \<in> set ts. inputSchema t = None)) \<and>
   (\<forall>results. fst (findTools h pattern options st) = Inr results \<longrightarrow>
         (\<forall>(n, es) \<in> set results. \<forall>e \<in> set es. entry_inputSchema e = None)) \<and>
   (\<forall>c resp ts t. getClient st serverName = Inr c \<and> client_listTools h c = Inr resp \<and>
         tools resp = ToolsArray ts \<and> find (\<lambda>t. name t = Some toolName) ts = Some t \<longrightarrow>
         fst (getTool h serverName toolName st) = Inr t \<and> t \<in> set ts \<and> name t = Some toolName)"
proof (intro conjI allI impI)
  fix ts assume "fst (findToolsInServer h serverName pattern si cs st) = Inr ts"
  then show "\<forall>t \<in> set ts. inputSchema t = None"
    by (auto simp: findToolsInServer_def name_and_description_schema
        split: sum.splits option.splits)
next
  fix results assume r: "fst (findTools h pattern options st) = Inr results"
  show "\<forall>(n, es) \<in> set results. \<forall>e \<in> set es. entry_inputSchema e = None"
  proof (cases "length (getConnectedServers st) = 0")
    case True
    with r show ?thesis by (simp add: findTools_def)
  next
    case False
    with r obtain regex st' where
      "findTools_loop h regex (option_searchIn options) (getConnectedServers st) [] st
         = (results, st')"
      by (auto simp: findTools_def Let_def split: sum.splits prod.splits)
    then have "results =
      fst (findTools_loop h regex (option_searchIn options) (getConnectedServers st) [] st)"
      by simp
    then show ?thesis using findTools_loop_no_schema[of "[]" h regex] by simp
  qed
next
  fix c resp ts t
  assume a: "getClient st serverName = Inr c \<and> client_listTools h c = Inr resp \<and>
         tools resp = ToolsArray ts \<and> find (\<lambda>t. name t = Some toolName) ts = Some t"
  then show "fst (getTool h serverName toolName st) = Inr t" by (simp add: getTool_def)
  from a have f: "find (\<lambda>t. name t = Some toolName) ts = Some t" by simp
  then show "t \<in> set ts" by (auto simp: find_Some_iff)
  from f show "name t = Some toolName" by (auto simp: find_Some_iff)
qed

theorem search_results_drop_schema_getTool_keeps_it_witness:
  "fst (findToolsInServer example_host ''files'' ''file'' SearchBoth False three_servers)
     = Inr [name_and_description readFile_tool] \<and>
   inputSchema (name_and_description readFile_tool) = None \<and>
   fst (findTools example_host ''file'' default_options three_servers) = Inr file_search_results \<and>
   list_all (\<lambda>(n, es). list_all (\<lambda>e. entry_inputSchema e = None) es) file_search_results \<and>
   getClient three_servers ''files'' = Inr (stdio_client ''files'') \<and>
   client_listTools example_host (stdio_client ''files'')
     = Inr \<lparr>tools = ToolsArray [readFile_tool, fileInfo_tool]\<rparr> \<and>
   find (\<lambda>t. name t = Some ''FileInfo'') [readFile_tool, fileInfo_tool] = Some fileInfo_tool \<and>
   fst (getTool example_host ''files'' ''FileInfo'' three_servers) = Inr fileInfo_tool \<and>
   inputSchema fileInfo_tool = Some (JObject [(''type'', JString ''object'')]) \<and>
   fst (getTool example_host ''files'' ''fileinfo'' three_servers)
     = Inl (ToolNotFound ''fileinfo'' ''files'')"
proof -
  note all = search_results_drop_schema_getTool_keeps_it[where h = example_host
      and serverName = "''files''" and pattern = "''file''"
      and si = SearchBoth and cs = False and st = three_servers and options = default_options
      and toolName = "''FileInfo''"]
  note part1 = all[THEN conjunct1, rule_format]
  have fis: "fst (findToolsInServer example_host ''files'' ''file'' SearchBoth False three_servers)
     = Inr [name_and_description readFile_tool]"
    by (simp add: findToolsInServer_def search_defs example_defs)
  have ft: "fst (findTools example_host ''file'' default_options three_servers)
              = Inr file_search_results"
    by (simp add: findTools_example)
  have gc: "getClient three_servers ''files'' = Inr (stdio_client ''files'')"
    by (simp add: getClient_def Map_get_def three_servers_def)
  have lt: "client_listTools example_host (stdio_client ''files'')
     = Inr \<lparr>tools = ToolsArray [readFile_tool, fileInfo_tool]\<rparr>"
    by (simp add: example_defs)
  have fd: "find (\<lambda>t. name t = Some ''FileInfo'') [readFile_tool, fileInfo_tool]
              = Some fileInfo_tool"
    by (simp add: readFile_tool_def fileInfo_tool_def)
  have s1: "inputSchema (name_and_description readFile_tool) = None"
    using part1[OF fis, of "name_and_description readFile_tool"] by simp
  have s2: "list_all (\<lambda>(n, es). list_all (\<lambda>e. entry_inputSchema e = None) es)
                   file_search_results"
    using all[THEN conjunct2, THEN conjunct1, THEN spec, THEN mp, OF ft]
    by (simp only: list_all_iff)
  have tl: "tools \<lparr>tools = ToolsArray [readFile_tool, fileInfo_tool]\<rparr>
              = ToolsArray [readFile_tool, fileInfo_tool]" by simp
  have g: "fst (getTool example_host ''files'' ''FileInfo'' three_servers) = Inr fileInfo_tool"
    using all[THEN conjunct2, THEN conjunct2, THEN spec, THEN spec, THEN spec, THEN spec, THEN mp,
        OF conjI[OF gc conjI[OF lt conjI[OF tl fd]]]]
    by (rule conjunct1)
  have sch: "inputSchema fileInfo_tool = Some (JObject [(''type'', JString ''object'')])"
    by (simp add: fileInfo_tool_def)
  have cs: "fst (getTool example_host ''files'' ''fileinfo'' three_servers)
     = Inl (ToolNotFound ''fileinfo'' ''files'')"
    by (simp add: getTool_def getClient_def Map_get_def example_defs)
  show ?thesis
    by (intro conjI) (rule fis s1 ft s2 gc lt fd g sch cs)+
qed

subsection \<open>An invalid pattern\<close>

text \<open>
  Claim C3, as the specification states it, fails when no server is connected: \<open>findTools\<close>
  returns the empty result before it compiles the pattern, so the invalid pattern \<open>(\<close>
  raises nothing.
\<close>

theorem findTools_invalid_pattern_no_servers_counterexample:
  "RegExp_compile example_host ''('' (if option_caseSensitive default_options then [] else ''i'')
     = Inl ''Invalid regular expression'' \<and>
   findTools example_host ''('' default_options no_servers = (Inr [], no_servers) \<and>
   fst (findTools example_host ''('' default_options no_servers)
     \<noteq> Inl (InvalidRegexPattern ''Invalid regular expression'')"
  by (simp add: findTools_def getConnectedServers_def Map_keys_def no_servers_def
      example_host_def literal_compile_def literal_char_def)

text \<open>
  Claim C3, amended. For a pattern that does not compile, \<open>findTools\<close> raises the
  invalid-pattern error when at least one server is connected, and returns the empty
  result when none is. In both cases the state is returned as it was, so no server has
  been queried, and there are no per-server results or error entries.
\<close>

theorem findTools_invalid_pattern:
  assumes "RegExp_compile h pattern (if option_caseSensitive options then [] else ''i'') = Inl msg"
  shows "findTools h pattern options st =
           (if getConnectedServers st = [] then (Inr [], st)
            else (Inl (InvalidRegexPattern msg), st))"
  using assms by (simp add: findTools_def new_RegExp_def)

theorem findTools_invalid_pattern_witness:
  "RegExp_compile example_host ''('' (if option_caseSensitive default_options then [] else ''i'')
     = Inl ''Invalid regular expression'' \<and>
   findTools example_host ''('' default_options three_servers
     = (Inl (InvalidRegexPattern ''Invalid regular expression''), three_servers) \<and>
   calls three_servers = []"
proof -
  have bad: "RegExp_compile example_host ''(''
               (if option_caseSensitive default_options then [] else ''i'')
             = Inl ''Invalid regular expression''"
    by (simp add: example_host_def literal_compile_def literal_char_def)
  have "getConnectedServers three_servers \<noteq> []"
    by (simp add: getConnectedServers_def Map_keys_def three_servers_def)
  with findTools_invalid_pattern[OF bad, of three_servers] bad show ?thesis
    by (simp add: three_servers_def)
qed

subsection \<open>Listing the tools of one server\<close>

text \<open>
  Claim C4, as the specification states it, fails: the entries of \<open>listToolsInServer\<close> are
  not the descriptors that the upstream reported, because the input schema is left out.
\<close>

theorem listToolsInServer_drops_schema_counterexample:
  "getClient three_servers ''files'' = Inr (stdio_client ''files'') \<and>
   client_listTools example_host (stdio_client ''files'')
     = Inr \<lparr>tools = ToolsArray [readFile_tool, fileInfo_tool]\<rparr> \<and>
   fst (listToolsInServer example_host ''files'' three_servers)
     = Inr [name_and_description readFile_tool, name_and_description fileInfo_tool] \<and>
   fst (listToolsInServer example_host ''files'' three_servers)
     \<noteq> Inr [readFile_tool, fileInfo_tool]"
  by (simp add: listToolsInServer_def getClient_def Map_get_def name_and_description_def
      example_defs)

text \<open>
  Claim C4, amended. For a connected server whose reply holds a tool array,
  \<open>listToolsInServer\<close> returns one entry for each reported tool, in the reported order;
  each entry has the name and the description of its tool as reported, and no input schema.
\<close>

theorem listToolsInServer_name_and_description_only:
  assumes "getClient st serverName = Inr c"
    and "client_listTools h c = Inr resp"
    and "tools resp = ToolsArray ts"
  shows "\<exists>result. fst (listToolsInServer h serverName st) = Inr result \<and>
           length result = length ts \<and>
           (\<forall>i < length ts. name (result ! i) = name (ts ! i) \<and>
                            description (result ! i) = description (ts ! i) \<and>
                            inputSchema (result ! i) = None)"
  using assms by (simp add: listToolsInServer_def name_and_description_def)

theorem listToolsInServer_name_and_description_only_witness:
  "getClient three_servers ''files'' = Inr (stdio_client ''files'') \<and>
   client_listTools example_host (stdio_client ''files'')
     = Inr \<lparr>tools = ToolsArray [readFile_tool, fileInfo_tool]\<rparr> \<and>
   fst (listToolsInServer example_host ''files'' three_servers)
     = Inr [\<lparr>name = Some ''ReadFile'', description = Some ''Reads a file'', inputSchema = None\<rparr>,
            \<lparr>name = Some ''FileInfo'', description = Some ''Shows metadata'',
             inputSchema = None\<rparr>]"
proof -
  have gc: "getClient three_servers ''files'' = Inr (stdio_client ''files'')"
    by (simp add: getClient_def Map_get_def three_servers_def)
  have lt: "client_listTools example_host (stdio_client ''files'')
     = Inr \<lparr>tools = ToolsArray [readFile_tool, fileInfo_tool]\<rparr>"
    by (simp add: example_defs)
  from listToolsInServer_name_and_description_only[OF gc lt, of "[readFile_tool, fileInfo_tool]"] obtain result
    where r: "fst (listToolsInServer example_host ''files'' three_servers) = Inr result"
      and len: "length result = 2"
      and each: "\<forall>i < 2. name (result ! i) = name ([readFile_tool, fileInfo_tool] ! i) \<and>
                   description (result ! i) = description ([readFile_tool, fileInfo_tool] ! i) \<and>
                   inputSchema (result ! i) = None"
    by auto
  from len obtain a b where ab: "result = [a, b]"
    by (cases result; cases "tl result") auto
  from each have "name a = Some ''ReadFile'' \<and> description a = Some ''Reads a file'' \<and> inputSchema a = None"
    using ab by (auto simp: readFile_tool_def dest: spec[of _ 0])
  moreover from each have "name b = Some ''FileInfo'' \<and> description b = Some ''Shows metadata'' \<and> inputSchema b = None"
    using ab by (auto simp: fileInfo_tool_def dest: spec[of _ 1])
  ultimately have "result = [\<lparr>name = Some ''ReadFile'', description = Some ''Reads a file'', inputSchema = None\<rparr>,
            \<lparr>name = Some ''FileInfo'', description = Some ''Shows metadata'',
             inputSchema = None\<rparr>]"
    using ab by (cases a; cases b) simp
  with gc lt r show ?thesis by simp
qed

text \<open>
  Claim C5. For a connected server whose upstream answers the list request with a
  malformed response (the tool collection is missing or is not a sequence), both
  \<open>listToolsInServer\<close> and \<open>listTools\<close> raise the error with which the protocol client
  rejects the response; they raise as well when the request itself fails.
  \<open>listToolsInServer\<close> returns the empty list exactly when the upstream reports zero tools,
  and \<open>listTools\<close> then returns the reply of the upstream, so zero tools is never an error.
\<close>

theorem listing_malformed_reply_raises:
  assumes "getClient st serverName = Inr c"
  shows "(\<forall>resp. upstream_listTools h c = Inr resp \<and>
                 (tools resp = ToolsMissing \<or> (\<exists>v. tools resp = ToolsNotArray v)) \<longrightarrow>
            fst (listToolsInServer h serverName st) = Inl (UpstreamFailure (reply_error h resp)) \<and>
            fst (listTools h serverName st) = Inl (UpstreamFailure (reply_error h resp))) \<and>
         (\<forall>msg. upstream_listTools h c = Inl msg \<longrightarrow>
            fst (listToolsInServer h serverName st) = Inl (UpstreamFailure msg) \<and>
            fst (listTools h serverName st) = Inl (UpstreamFailure msg)) \<and>
         (fst (listToolsInServer h serverName st) = Inr [] \<longleftrightarrow>
            (\<exists>resp. upstream_listTools h c = Inr resp \<and> tools resp = ToolsArray [])) \<and>
         (\<forall>resp. upstream_listTools h c = Inr resp \<and> tools resp = ToolsArray [] \<longrightarrow>
            fst (listTools h serverName st) = Inr resp)"
  using assms
  by (auto simp: listToolsInServer_def listTools_def client_listTools_def
      split: sum.splits toolsField.splits)

theorem listing_malformed_reply_raises_witness:
  "getClient three_servers ''odd'' = Inr (stdio_client ''odd'') \<and>
   upstream_listTools example_host (stdio_client ''odd'') = Inr \<lparr>tools = ToolsMissing\<rparr> \<and>
   fst (listToolsInServer example_host ''odd'' three_servers)
     = Inl (UpstreamFailure ''Invalid tools list'') \<and>
   fst (listTools example_host ''odd'' three_servers)
     = Inl (UpstreamFailure ''Invalid tools list'') \<and>
   getClient idle_server ''idle'' = Inr (stdio_client ''idle'') \<and>
   upstream_listTools example_host (stdio_client ''idle'') = Inr \<lparr>tools = ToolsArray []\<rparr> \<and>
   fst (listToolsInServer example_host ''idle'' idle_server) = Inr [] \<and>
   fst (listTools example_host ''idle'' idle_server) = Inr \<lparr>tools = ToolsArray []\<rparr>"
proof -
  have g1: "getClient three_servers ''odd'' = Inr (stdio_client ''odd'')"
    by (simp add: getClient_def Map_get_def three_servers_def)
  have g2: "getClient idle_server ''idle'' = Inr (stdio_client ''idle'')"
    by (simp add: getClient_def Map_get_def idle_server_def)
  have l1: "upstream_listTools example_host (stdio_client ''odd'') = Inr \<lparr>tools = ToolsMissing\<rparr>"
    and l2: "upstream_listTools example_host (stdio_client ''idle'')
               = Inr \<lparr>tools = ToolsArray []\<rparr>"
    by (simp_all add: example_defs)
  have t1: "tools \<lparr>tools = ToolsMissing\<rparr> = ToolsMissing"
    and t2: "tools \<lparr>tools = ToolsArray []\<rparr> = ToolsArray []"
    by simp_all
  have e: "reply_error example_host \<lparr>tools = ToolsMissing\<rparr> = ''Invalid tools list''"
    by (simp add: example_defs)
  note odd = listing_malformed_reply_raises[OF g1, of example_host, THEN conjunct1, THEN spec,
      THEN mp, OF conjI[OF l1 disjI1[OF t1]], unfolded e]
  note idle = listing_malformed_reply_raises[OF g2, of example_host]
  have zero: "\<exists>resp. upstream_listTools example_host (stdio_client ''idle'') = Inr resp \<and>
                tools resp = ToolsArray []"
    by (intro exI[of _ "\<lparr>tools = ToolsArray []\<rparr>"] conjI l2 t2)
  have r3: "fst (listToolsInServer example_host ''idle'' idle_server) = Inr []"
    using idle[THEN conjunct2, THEN conjunct2, THEN conjunct1, THEN iffD2, OF zero] .
  have r4: "fst (listTools example_host ''idle'' idle_server) = Inr \<lparr>tools = ToolsArray []\<rparr>"
    using idle[THEN conjunct2, THEN conjunct2, THEN conjunct2, THEN spec, THEN mp,
        OF conjI[OF l2 t2]] .
  show ?thesis
    by (intro conjI) (rule g1 g2 l1 l2 odd[THEN conjunct1] odd[THEN conjunct2] r3 r4)+
qed

subsection \<open>Searching one server with a global regular expression\<close>

text \<open>
  Claim C2 does not hold of \<open>findToolsInServer\<close>. The method compiles the pattern with
  the flag \<open>g\<close>, so every test starts where the match before it ended. In the example the
  server reports the tools \<open>ReadFile\<close> and \<open>FileInfo\<close> and the pattern is \<open>file\<close> with
  the default arguments. The name \<open>FileInfo\<close> matches the pattern, but the tests on
  \<open>ReadFile\<close> and on its description leave \<open>lastIndex\<close> at 12, beyond the end of
  \<open>FileInfo\<close>, and the tool is not returned. \<open>findTools\<close>, whose regular expression has
  no flag \<open>g\<close>, reports both tools for the same server.
\<close>

theorem findToolsInServer_global_flag_skips_match:
  "getClient three_servers ''files'' = Inr (stdio_client ''files'') \<and>
   client_listTools example_host (stdio_client ''files'')
     = Inr \<lparr>tools = ToolsArray [readFile_tool, fileInfo_tool]\<rparr> \<and>
   new_RegExp example_host ''file'' ''gi''
     = Inr \<lparr>program = Literal ''file'' True, global = True, lastIndex = 0\<rparr> \<and>
   RegExp_exec example_host (Literal ''file'' True) ''FileInfo'' 0 = Some 4 \<and>
   tool_matches example_host (Literal ''file'' True) SearchBoth fileInfo_tool \<and>
   fst (findToolsInServer example_host ''files'' ''file'' SearchBoth False three_servers)
     = Inr [name_and_description readFile_tool] \<and>
   Map_get file_search_results ''files''
     = Some [ToolEntry (name_and_description readFile_tool),
             ToolEntry (name_and_description fileInfo_tool)] \<and>
   fst (findTools example_host ''file'' default_options three_servers) = Inr file_search_results"
proof -
  have a: "getClient three_servers ''files'' = Inr (stdio_client ''files'')"
    by (simp add: getClient_def Map_get_def three_servers_def)
  have b: "client_listTools example_host (stdio_client ''files'')
     = Inr \<lparr>tools = ToolsArray [readFile_tool, fileInfo_tool]\<rparr>"
    by (simp add: example_defs)
  have c: "new_RegExp example_host ''file'' ''gi''
     = Inr \<lparr>program = Literal ''file'' True, global = True, lastIndex = 0\<rparr>"
    by (simp add: new_RegExp_def example_host_def literal_compile_def literal_char_def)
  have d: "RegExp_exec example_host (Literal ''file'' True) ''FileInfo'' 0 = Some 4"
    by (simp add: example_host_def ascii_lower_def)
  have e: "tool_matches example_host (Literal ''file'' True) SearchBoth fileInfo_tool"
    by (simp add: tool_matches_def field_matches_def fileInfo_tool_def example_host_def
        ascii_lower_def)
  have f: "fst (findToolsInServer example_host ''files'' ''file'' SearchBoth False three_servers)
     = Inr [name_and_description readFile_tool]"
    by (simp add: findToolsInServer_def search_defs example_defs)
  have g: "Map_get file_search_results ''files''
     = Some [ToolEntry (name_and_description readFile_tool),
             ToolEntry (name_and_description fileInfo_tool)]"
    by (simp add: Map_get_def file_search_results_def)
  have i: "fst (findTools example_host ''file'' default_options three_servers)
             = Inr file_search_results"
    by (simp add: findTools_example)
  show ?thesis
    by (intro conjI) (rule a b c d e f g i)+
qed

end
